theory Spec2Isabelle
  imports Complex_Main
begin

section \<open>LightSnowFX: the particle animation of \<open>dist/LightSnow-Fx.js\<close>\<close>

text \<open>
  The JavaScript numbers of the source are modelled as real numbers: every value is
  finite and arithmetic is exact. Two counts are integers: \<open>streams\<close> (an \<open>int\<close>, so
  that a negative count can be written) and \<open>trailLeds\<close> (a \<open>nat\<close>, the bound of the
  trail loop). A quotient by zero is an infinity or NaN in JavaScript and 0 in HOL:
  a theorem whose statement depends on a quotient by an option assumes that this
  option is not zero.

  \<open>Math.random()\<close> is a sequence \<open>g :: nat \<Rightarrow> real\<close> of future draws together with the
  index of the next draw; the drawing context is a list of paint commands, in the order
  in which the source issues them.
\<close>

subsection \<open>Options and helpers\<close>

record options =
  streams :: int
  speedMin :: real
  speedMax :: real
  windMin :: real
  windMax :: real
  segW :: real
  segHead :: real
  segBody :: real
  spacing :: "real option"     \<comment> \<open>\<open>null\<close> is \<open>None\<close>\<close>
  trailLeds :: nat
  headBoost :: real
  twinkle :: real
  meltZone :: real
  flashTime :: real
  meltTime :: real
  spawnGapMin :: real
  spawnGapMax :: real
  retina :: bool
  maxDPR :: real
  glow :: bool
  flashDotRadius :: real

definition DEFAULTS :: options where
  "DEFAULTS = \<lparr> streams = 34, speedMin = 260, speedMax = 560, windMin = -25, windMax = 25,
     segW = 36 / 10, segHead = 20, segBody = 16, spacing = None,
     trailLeds = 14, headBoost = 130 / 100, twinkle = 18 / 100,
     meltZone = 48, flashTime = 14 / 100, meltTime = 55 / 100,
     spawnGapMin = 8 / 100, spawnGapMax = 60 / 100,
     retina = True, maxDPR = 2, glow = True, flashDotRadius = 65 / 10 \<rparr>"

definition clamp :: "real \<Rightarrow> real \<Rightarrow> real \<Rightarrow> real" where
  "clamp v a b = max a (min b v)"

text \<open>\<open>rand(a, b)\<close>, with the value \<open>u\<close> that \<open>Math.random()\<close> returns.\<close>

definition rand :: "real \<Rightarrow> real \<Rightarrow> real \<Rightarrow> real" where
  "rand a b u = a + u * (b - a)"

type_synonym rng = "nat \<Rightarrow> real"

text \<open>The closure constant \<open>spacing\<close> of \<open>createInstance\<close>.\<close>

definition spacing_of :: "options \<Rightarrow> real" where
  "spacing_of opt = (case spacing opt of None \<Rightarrow> segBody opt | Some v \<Rightarrow> v)"

subsection \<open>Particles\<close>

datatype lifecycle = Fall | Flash | Melt | Wait

text \<open>The fields \<open>x, y, vy, vx, phase, state, t, wait\<close> of a stream object.\<close>

record stream =
  s_x :: real
  s_y :: real
  s_vy :: real
  s_vx :: real
  s_phase :: real
  s_state :: lifecycle
  s_t :: real
  s_wait :: real

text \<open>
  \<open>makeStream(first)\<close>: the five draws are taken in the order of the object literal.
  \<open>W\<close> and \<open>H\<close> are the closure variables of the same names.
\<close>

definition makeStream :: "options \<Rightarrow> real \<Rightarrow> real \<Rightarrow> rng \<Rightarrow> nat \<Rightarrow> bool \<Rightarrow> stream \<times> nat" where
  "makeStream opt W H g k first =
     (\<lparr> s_x = rand 0 W (g k),
        s_y = (if first then rand (- H) H (g (k + 1))
               else rand (- H * (7 / 10)) (- 60) (g (k + 1))),
        s_vy = rand (speedMin opt) (speedMax opt) (g (k + 2)),
        s_vx = rand (windMin opt) (windMax opt) (g (k + 3)),
        s_phase = rand 0 (pi * 2) (g (k + 4)),
        s_state = Fall, s_t = 0, s_wait = 0 \<rparr>, k + 5)"

subsection \<open>Painting\<close>

text \<open>
  The calls on the 2D context. \<open>Capsule x y w h rr a\<close> is
  \<open>roundRectPath(ctx, x, y, w, h, rr)\<close> filled with \<open>rgba(255,255,255,a)\<close>;
  \<open>Arc x y r a\<close> is a full circle of radius \<open>r\<close> at \<open>(x, y)\<close> filled with alpha \<open>a\<close>;
  \<open>GlowDisc x y r a\<close> is the radial gradient of \<open>drawGlow\<close> whose centre stop has
  alpha \<open>a\<close>; \<open>ClearRect w h\<close> is \<open>ctx.clearRect(0, 0, w, h)\<close>.
\<close>

datatype paint =
    Capsule real real real real real real
  | Arc real real real real
  | GlowDisc real real real real
  | ClearRect real real

definition drawGlow :: "options \<Rightarrow> real \<Rightarrow> real \<Rightarrow> real \<Rightarrow> bool \<Rightarrow> paint list" where
  "drawGlow opt px py a isHead =
     (if \<not> glow opt \<or> a \<le> 12 / 100 then []
      else [GlowDisc px py (if isHead then 26 else 16) (a * (18 / 100))])"

definition drawSegment :: "options \<Rightarrow> real \<Rightarrow> real \<Rightarrow> real \<Rightarrow> bool \<Rightarrow> paint list" where
  "drawSegment opt px py a isHead =
     (let w = segW opt;
          h = (if isHead then segHead opt else segBody opt);
          rr = max w h * (1 / 2)
      in drawGlow opt px py a isHead @ [Capsule (px - w / 2) (py - h / 2) w h rr a])"

subsection \<open>The trail of a falling particle\<close>

text \<open>\<open>ly\<close> of iteration \<open>i\<close>: \<open>(headIndex - i) * spacing\<close> with \<open>headIndex = floor(s.y / spacing)\<close>.\<close>

definition segment_y :: "options \<Rightarrow> real \<Rightarrow> nat \<Rightarrow> real" where
  "segment_y opt py i =
     (let headIndex = \<lfloor>py / spacing_of opt\<rfloor>;
          idx = headIndex - int i
      in real_of_int idx * spacing_of opt)"

text \<open>The value of \<open>a\<close> after \<open>a *= 0.92 * tw\<close> in iteration \<open>i\<close>.\<close>

definition segment_alpha :: "options \<Rightarrow> real \<Rightarrow> real \<Rightarrow> real \<Rightarrow> nat \<Rightarrow> real" where
  "segment_alpha opt H tw ly i =
     (let a0 = 1 - real i / real (trailLeds opt);
          a1 = (if i = 0 then min 1 (a0 * headBoost opt) else a0);
          meltStart = H - meltZone opt;
          a2 = (if ly > meltStart
                then a1 * (1 - min 1 ((ly - meltStart) / meltZone opt))
                else a1)
      in a2 * ((92 / 100) * tw))"

text \<open>One iteration of the trail loop: what it paints (nothing after a \<open>continue\<close>).\<close>

definition trailSegment :: "options \<Rightarrow> real \<Rightarrow> real \<Rightarrow> real \<Rightarrow> real \<Rightarrow> nat \<Rightarrow> paint list" where
  "trailSegment opt H px py tw i =
     (let ly = segment_y opt py i
      in if ly < - 40 \<or> ly > H + 40 then []
         else let a = segment_alpha opt H tw ly i
              in if a \<le> 0 then [] else drawSegment opt px ly a (i = 0))"

definition trail :: "options \<Rightarrow> real \<Rightarrow> real \<Rightarrow> real \<Rightarrow> real \<Rightarrow> paint list" where
  "trail opt H px py tw = concat (map (trailSegment opt H px py tw) [0 ..< trailLeds opt])"

subsection \<open>One update of one particle\<close>

text \<open>
  \<open>drawStream(s, dt)\<close>: the updated particle, the index of the next random draw and
  the paint commands issued.
\<close>

definition drawStream ::
  "options \<Rightarrow> real \<Rightarrow> real \<Rightarrow> rng \<Rightarrow> nat \<Rightarrow> stream \<Rightarrow> real \<Rightarrow> stream \<times> nat \<times> paint list" where
  "drawStream opt W H g k s0 dt =
     (let s = s0\<lparr> s_phase := s_phase s0 + (115 / 100) * dt \<rparr>;
          tw = 1 + sin (s_phase s) * twinkle opt
      in case s_state s of
        Fall \<Rightarrow>
          (let s1 = s\<lparr> s_y := s_y s + s_vy s * dt \<rparr>;
               s2 = s1\<lparr> s_x := s_x s1 + s_vx s1 * dt \<rparr>;
               s3 = (if s_x s2 < - 50 then s2\<lparr> s_x := W + 50 \<rparr> else s2);
               s4 = (if s_x s3 > W + 50 then s3\<lparr> s_x := - 50 \<rparr> else s3);
               ps = trail opt H (s_x s4) (s_y s4) tw;
               s5 = (if s_y s4 > H - 2 then s4\<lparr> s_state := Flash, s_t := 0 \<rparr> else s4)
           in (s5, k, ps))
      | Flash \<Rightarrow>
          (let s1 = s\<lparr> s_t := s_t s + dt \<rparr>;
               yb = H - 10;
               a = clamp (1 - s_t s1 / flashTime opt) 0 1;
               ps = [Arc (s_x s1) yb 42 ((30 / 100) * a),
                     Arc (s_x s1) yb (flashDotRadius opt) ((98 / 100) * a),
                     Arc (s_x s1) (yb + 14) 10 ((22 / 100) * a)];
               s2 = (if s_t s1 \<ge> flashTime opt then s1\<lparr> s_state := Melt, s_t := 0 \<rparr> else s1)
           in (s2, k, ps))
      | Melt \<Rightarrow>
          (let s1 = s\<lparr> s_t := s_t s + dt \<rparr>;
               yb = H - 10;
               p = clamp (s_t s1 / meltTime opt) 0 1;
               a = 1 - p;
               ps = [Arc (s_x s1) (yb + 14) (10 * (1 + p * 1)) ((18 / 100) * a)]
           in if p \<ge> 1
              then (s1\<lparr> s_state := Wait,
                        s_wait := rand (spawnGapMin opt) (spawnGapMax opt) (g k),
                        s_t := 0 \<rparr>, k + 1, ps)
              else (s1, k, ps))
      | Wait \<Rightarrow>
          (let s1 = s\<lparr> s_wait := s_wait s - dt \<rparr>
           in if s_wait s1 \<le> 0
              then (let (ns, k') = makeStream opt W H g k False
                    in (s1\<lparr> s_x := s_x ns, s_y := s_y ns, s_vy := s_vy ns, s_vx := s_vx ns,
                             s_phase := s_phase ns, s_state := Fall, s_t := 0 \<rparr>, k', []))
              else (s1, k, [])))"

text \<open>The \<open>for\<close> loop of \<open>loop\<close> over the particles, in index order.\<close>

fun draw_all ::
  "options \<Rightarrow> real \<Rightarrow> real \<Rightarrow> rng \<Rightarrow> nat \<Rightarrow> real \<Rightarrow> stream list \<Rightarrow> stream list \<times> nat \<times> paint list" where
  "draw_all opt W H g k dt [] = ([], k, [])"
| "draw_all opt W H g k dt (s # ss) =
     (let (s', k1, ps) = drawStream opt W H g k s dt;
          (ss', k2, qs) = draw_all opt W H g k1 dt ss
      in (s' # ss', k2, ps @ qs))"

subsection \<open>The instance: construction, frame loop, pause and resume\<close>

text \<open>
  What the browser supplies at a call: the bounding rectangle of the parent, the device
  pixel ratio and the value of \<open>performance.now()\<close>.
\<close>

record env =
  rect_width :: real
  rect_height :: real
  devicePixelRatio :: real
  perf_now :: real



text \<open>
  The closure state of an instance: \<open>opt\<close>, \<open>W\<close>, \<open>H\<close>, \<open>DPR\<close>, \<open>raf\<close>, \<open>running\<close>, \<open>last\<close>
  and \<open>streams\<close>, with the position in the random sequence, the frame callbacks that
  are scheduled and not cancelled, the next handle \<open>requestAnimationFrame\<close> returns, and
  whether the canvas is in the document.
\<close>

record instance_state =
  i_opt :: options
  i_W :: real
  i_H :: real
  i_DPR :: real
  i_raf :: nat
  i_running :: bool
  i_last :: real
  i_streams :: "stream list"
  i_seed :: nat
  i_pending :: "nat list"
  i_next_handle :: nat
  i_attached :: bool

definition requestAnimationFrame :: "instance_state \<Rightarrow> instance_state" where
  "requestAnimationFrame i =
     i\<lparr> i_raf := i_next_handle i,
        i_pending := i_pending i @ [i_next_handle i],
        i_next_handle := i_next_handle i + 1 \<rparr>"

definition cancelAnimationFrame :: "nat \<Rightarrow> instance_state \<Rightarrow> instance_state" where
  "cancelAnimationFrame h i = i\<lparr> i_pending := removeAll h (i_pending i) \<rparr>"

definition resize :: "env \<Rightarrow> instance_state \<Rightarrow> instance_state" where
  "resize e i =
     i\<lparr> i_W := max 1 (real_of_int \<lfloor>rect_width e\<rfloor>),
        i_H := max 1 (real_of_int \<lfloor>rect_height e\<rfloor>),
        i_DPR := (if retina (i_opt i)
                  then clamp (if devicePixelRatio e = 0 then 1 else devicePixelRatio e)
                             1 (maxDPR (i_opt i))
                  else 1) \<rparr>"



text \<open>\<open>x | 0\<close>: truncation towards zero, then reduction to a signed 32-bit integer.\<close>

definition to_int32 :: "real \<Rightarrow> int" where
  "to_int32 v =
     (let n = (if v \<ge> 0 then \<lfloor>v\<rfloor> else \<lceil>v\<rceil>)
      in (n + 2 ^ 31) mod 2 ^ 32 - 2 ^ 31)"

text \<open>The \<open>dt\<close> of \<open>loop(now)\<close>.\<close>

definition frame_dt :: "real \<Rightarrow> real \<Rightarrow> real" where
  "frame_dt now lst = min 40 (now - lst) / 1000"

definition loop :: "env \<Rightarrow> rng \<Rightarrow> real \<Rightarrow> instance_state \<Rightarrow> instance_state \<times> paint list" where
  "loop e g now i =
     (if \<not> i_running i then (i, [])
      else
        (let dt = frame_dt now (i_last i);
             i1 = i\<lparr> i_last := now \<rparr>;
             i2 = (if real_of_int (to_int32 (rect_width e)) \<noteq> i_W i1
                      \<or> real_of_int (to_int32 (rect_height e)) \<noteq> i_H i1
                   then resize e i1 else i1);
             (ss, k, ps) = draw_all (i_opt i2) (i_W i2) (i_H i2) g (i_seed i2) dt (i_streams i2);
             i3 = i2\<lparr> i_streams := ss, i_seed := k \<rparr>
         in (requestAnimationFrame i3, ClearRect (i_W i2) (i_H i2) # ps)))"

definition pause :: "instance_state \<Rightarrow> instance_state" where
  "pause i =
     (if \<not> i_running i then i
      else cancelAnimationFrame (i_raf i) (i\<lparr> i_running := False \<rparr>))"

definition resume :: "env \<Rightarrow> instance_state \<Rightarrow> instance_state" where
  "resume e i =
     (if i_running i then i
      else requestAnimationFrame (i\<lparr> i_running := True, i_last := perf_now e \<rparr>))"

definition destroy :: "instance_state \<Rightarrow> instance_state" where
  "destroy i =
     (cancelAnimationFrame (i_raf i) (i\<lparr> i_running := False \<rparr>))
       \<lparr> i_attached := False, i_streams := [] \<rparr>"

subsection \<open>Concrete inputs\<close>

text \<open>A random source that always returns 0.5, a parent of 100 by 100 pixels, and an
  instance holding one Flashing particle (running or paused).\<close>

definition g_half :: rng where
  "g_half = (\<lambda>_. 1 / 2)"

definition example_env :: env where
  "example_env = \<lparr> rect_width = 100, rect_height = 100, devicePixelRatio = 1, perf_now = 9000 \<rparr>"

definition example_instance :: "bool \<Rightarrow> instance_state" where
  "example_instance r =
     \<lparr> i_opt = DEFAULTS, i_W = 100, i_H = 100, i_DPR = 1, i_raf = 1, i_running = r,
       i_last = 1000,
       i_streams = [\<lparr> s_x = 10, s_y = 99, s_vy = 300, s_vx = 0, s_phase = 0, s_state = Flash,
                      s_t = 0, s_wait = 0 \<rparr>],
       i_seed = 5, i_pending = (if r then [1] else []), i_next_handle = 2, i_attached = True \<rparr>"

section \<open>Auxiliary facts\<close>

subsection \<open>\<open>rand\<close> stays between its bounds\<close>

lemma rand_between:
  assumes "a \<le> b" "0 \<le> u" "u \<le> 1"
  shows "a \<le> rand a b u" "rand a b u \<le> b"
proof -
  have "0 \<le> u * (b - a)" using assms by simp
  then show "a \<le> rand a b u" by (simp add: rand_def)
  have "u * (b - a) \<le> 1 * (b - a)" using assms by (intro mult_right_mono) simp_all
  then show "rand a b u \<le> b" by (simp add: rand_def)
qed



subsection \<open>Branches of \<open>drawStream\<close>\<close>

lemma drawStream_Flash:
  "s_state s = Flash \<Longrightarrow>
   drawStream opt W H g k s dt =
     (let a = clamp (1 - (s_t s + dt) / flashTime opt) 0 1;
          ps = [Arc (s_x s) (H - 10) 42 ((30 / 100) * a),
                Arc (s_x s) (H - 10) (flashDotRadius opt) ((98 / 100) * a),
                Arc (s_x s) (H - 10 + 14) 10 ((22 / 100) * a)];
          s1 = s\<lparr> s_phase := s_phase s + (115 / 100) * dt, s_t := s_t s + dt \<rparr>
      in (if flashTime opt \<le> s_t s + dt then s1\<lparr> s_state := Melt, s_t := 0 \<rparr> else s1, k, ps))"
  by (simp add: drawStream_def Let_def)

lemma drawStream_Fall_paints:
  "s_state s = Fall \<Longrightarrow>
   snd (snd (drawStream opt W H g k s dt)) =
     concat (map (trailSegment opt H (s_x (fst (drawStream opt W H g k s dt)))
                    (s_y s + s_vy s * dt)
                    (1 + sin (s_phase s + (115 / 100) * dt) * twinkle opt))
                 [0 ..< trailLeds opt])"
  by (simp add: drawStream_def Let_def trail_def)

lemma trailSegment_in_paints:
  assumes "s_state s = Fall" and "i < trailLeds opt"
    and "p \<in> set (trailSegment opt H (s_x (fst (drawStream opt W H g k s dt)))
                    (s_y s + s_vy s * dt)
                    (1 + sin (s_phase s + (115 / 100) * dt) * twinkle opt) i)"
  shows "p \<in> set (snd (snd (drawStream opt W H g k s dt)))"
  unfolding drawStream_Fall_paints [OF assms(1)] using assms(2,3) by auto

lemma capsule_in_trailSegment:
  assumes "Capsule cx cy w h rr a \<in> set (trailSegment opt H px py tw i)"
  shows "a = segment_alpha opt H tw (segment_y opt py i) i \<and> 0 < a"
  using assms
  by (auto simp: trailSegment_def drawSegment_def drawGlow_def Let_def split: if_splits)

subsection \<open>The opacity of a trail segment\<close>

lemma segment_alpha_upper:
  assumes i: "i < trailLeds opt" and hb: "0 \<le> headBoost opt" and mz: "0 < meltZone opt"
    and tw: "tw = 1 + sin ph * twinkle opt"
    and pos: "0 < segment_alpha opt H tw ly i"
  shows "segment_alpha opt H tw ly i \<le> (92 / 100) * (1 + \<bar>twinkle opt\<bar>)"
proof -
  define a0 where "a0 = 1 - real i / real (trailLeds opt)"
  define a1 where "a1 = (if i = 0 then min 1 (a0 * headBoost opt) else a0)"
  define f where "f = (if ly > H - meltZone opt
                       then 1 - min 1 ((ly - (H - meltZone opt)) / meltZone opt) else 1)"
  have seg: "segment_alpha opt H tw ly i = (a1 * f) * ((92 / 100) * tw)"
    by (simp add: segment_alpha_def Let_def a0_def a1_def f_def)
  have "real i / real (trailLeds opt) < 1" using i by simp
  moreover have "0 \<le> real i / real (trailLeds opt)" by simp
  ultimately have a0: "0 \<le> a0" "a0 \<le> 1" by (simp_all add: a0_def)
  have a1: "0 \<le> a1" "a1 \<le> 1"
    using a0 hb by (simp_all add: a1_def min_def)
  have f: "0 \<le> f" "f \<le> 1"
    using mz by (simp_all add: f_def min_def)
  have af: "0 \<le> a1 * f" "a1 * f \<le> 1"
    using a1 f by (simp_all add: mult_le_one)
  have "\<bar>sin ph * twinkle opt\<bar> \<le> 1 * \<bar>twinkle opt\<bar>"
    unfolding abs_mult by (intro mult_right_mono) simp_all
  then have twu: "tw \<le> 1 + \<bar>twinkle opt\<bar>" using tw by simp
  have twpos: "0 < tw"
  proof (rule ccontr)
    assume "\<not> 0 < tw"
    then have "(92 / 100) * tw \<le> 0" by simp
    with af(1) have "(a1 * f) * ((92 / 100) * tw) \<le> 0"
      by (rule mult_nonneg_nonpos)
    with pos seg show False by simp
  qed
  have "(a1 * f) * ((92 / 100) * tw) \<le> 1 * ((92 / 100) * tw)"
    using af(2) twpos by (intro mult_right_mono) simp_all
  also have "\<dots> \<le> (92 / 100) * (1 + \<bar>twinkle opt\<bar>)" using twu by simp
  finally show ?thesis using seg by simp
qed

subsection \<open>The particle loop and the frame\<close>

lemma draw_all_updates:
  "draw_all opt W H g k dt ss = (ss', k', ps) \<Longrightarrow>
   length ss' = length ss \<and>
   (\<forall>j < length ss. \<exists>kj. ss' ! j = fst (drawStream opt W H g kj (ss ! j) dt))"
proof (induction ss arbitrary: k ss' k' ps)
  case Nil
  then show ?case by simp
next
  case (Cons s ss)
  obtain s1 k1 p1 where d: "drawStream opt W H g k s dt = (s1, k1, p1)"
    by (cases "drawStream opt W H g k s dt") auto
  obtain ss2 k2 p2 where r: "draw_all opt W H g k1 dt ss = (ss2, k2, p2)"
    by (cases "draw_all opt W H g k1 dt ss") auto
  from Cons.prems d r have eq: "ss' = s1 # ss2" by simp
  from Cons.IH [OF r] have len: "length ss2 = length ss"
    and upd: "\<forall>j < length ss. \<exists>kj. ss2 ! j = fst (drawStream opt W H g kj (ss ! j) dt)"
    by simp_all
  have "\<exists>kj. (s1 # ss2) ! j = fst (drawStream opt W H g kj ((s # ss) ! j) dt)"
    if "j < length (s # ss)" for j
  proof (cases j)
    case 0
    with d show ?thesis by (intro exI [of _ k]) simp
  next
    case (Suc m)
    with that upd show ?thesis by simp
  qed
  with eq len show ?case by simp
qed

lemma resize_fields:
  "i_opt (resize e i) = i_opt i" "i_streams (resize e i) = i_streams i"
  "i_last (resize e i) = i_last i" "i_running (resize e i) = i_running i"
  "1 \<le> i_W (resize e i)" "1 \<le> i_H (resize e i)"
  by (simp_all add: resize_def)

lemma loop_updates:
  assumes "i_running i" and "loop e g now i = (i', ps)"
  shows "length (i_streams i') = length (i_streams i)"
    and "\<forall>j < length (i_streams i). \<exists>kj.
           i_streams i' ! j = fst (drawStream (i_opt i) (i_W i') (i_H i') g kj (i_streams i ! j)
                                     (frame_dt now (i_last i)))"
    and "i_last i' = now"
proof -
  define i2 where "i2 = (if real_of_int (to_int32 (rect_width e)) \<noteq> i_W i
                      \<or> real_of_int (to_int32 (rect_height e)) \<noteq> i_H i
                   then resize e (i\<lparr> i_last := now \<rparr>) else i\<lparr> i_last := now \<rparr>)"
  obtain ss k qs where d:
    "draw_all (i_opt i2) (i_W i2) (i_H i2) g (i_seed i2) (frame_dt now (i_last i)) (i_streams i2)
       = (ss, k, qs)"
    by (metis prod_cases3)
  have f: "i_opt i2 = i_opt i" "i_streams i2 = i_streams i" "i_last i2 = now"
    by (simp_all add: i2_def resize_fields)
  from assms d have i': "i' = requestAnimationFrame (i2\<lparr> i_streams := ss, i_seed := k \<rparr>)"
    by (simp add: loop_def Let_def i2_def)
  then have g: "i_streams i' = ss" "i_W i' = i_W i2" "i_H i' = i_H i2" "i_last i' = now"
    by (simp_all add: requestAnimationFrame_def f)
  from draw_all_updates [OF d] f g show "length (i_streams i') = length (i_streams i)"
    and "\<forall>j < length (i_streams i). \<exists>kj.
           i_streams i' ! j = fst (drawStream (i_opt i) (i_W i') (i_H i') g kj (i_streams i ! j)
                                     (frame_dt now (i_last i)))"
    and "i_last i' = now"
    by simp_all
qed

subsection \<open>Construction\<close>





section \<open>The claims\<close>

subsection \<open>C1: opacity of a painted trail segment\<close>

text \<open>
  C1, as amended. Let a Falling particle be updated, with \<open>headBoost \<ge> 0\<close> and
  \<open>meltZone > 0\<close>. Every capsule the update paints has an alpha \<open>a\<close> with
  \<open>0 < a \<le> 0.92 * (1 + |twinkle|)\<close>; so \<open>a \<le> 1\<close> when \<open>|twinkle| \<le> 2/23\<close>. The source
  clamps only the boosted head value to 1, before the factor \<open>0.92 * tw\<close> is applied.
\<close>

theorem painted_opacity_bounds:
  assumes "s_state s = Fall" and "0 \<le> headBoost opt" and "0 < meltZone opt"
    and "Capsule cx cy w h rr a \<in> set (snd (snd (drawStream opt W H g k s dt)))"
  shows "0 < a \<and> a \<le> (92 / 100) * (1 + \<bar>twinkle opt\<bar>) \<and> (\<bar>twinkle opt\<bar> \<le> 2 / 23 \<longrightarrow> a \<le> 1)"
proof -
  from assms(4) obtain i where i: "i < trailLeds opt"
    and m: "Capsule cx cy w h rr a \<in> set (trailSegment opt H (s_x (fst (drawStream opt W H g k s dt)))
                    (s_y s + s_vy s * dt)
                    (1 + sin (s_phase s + (115 / 100) * dt) * twinkle opt) i)"
    unfolding drawStream_Fall_paints [OF assms(1)] by auto
  from capsule_in_trailSegment [OF m]
  have a: "a = segment_alpha opt H (1 + sin (s_phase s + (115 / 100) * dt) * twinkle opt)
                 (segment_y opt (s_y s + s_vy s * dt) i) i" and pos: "0 < a"
    by simp_all
  from segment_alpha_upper [OF i assms(2,3) refl pos [unfolded a]] a
  have up: "a \<le> (92 / 100) * (1 + \<bar>twinkle opt\<bar>)" by simp
  have "a \<le> 1" if "\<bar>twinkle opt\<bar> \<le> 2 / 23"
    using up that by simp
  with pos up show ?thesis by blast
qed

theorem painted_opacity_bounds_witness:
  "Capsule (82 / 10) 86 (36 / 10) 20 10 (621 / 625)
     \<in> set (snd (snd (drawStream (DEFAULTS\<lparr> twinkle := 8 / 100 \<rparr>) 800 600 g_half 0
         \<lparr> s_x = 10, s_y = 92, s_vy = 500, s_vx = 0, s_phase = pi / 2 - 23 / 1250,
           s_state = Fall, s_t = 0, s_wait = 0 \<rparr> (16 / 1000))))
   \<and> 0 < (621 / 625 :: real) \<and> (621 / 625 :: real) \<le> 1"
proof -
  have m: "Capsule (82 / 10) 86 (36 / 10) 20 10 (621 / 625)
     \<in> set (snd (snd (drawStream (DEFAULTS\<lparr> twinkle := 8 / 100 \<rparr>) 800 600 g_half 0
         \<lparr> s_x = 10, s_y = 92, s_vy = 500, s_vx = 0, s_phase = pi / 2 - 23 / 1250,
           s_state = Fall, s_t = 0, s_wait = 0 \<rparr> (16 / 1000))))"
    by (rule trailSegment_in_paints [where i = 0])
       (simp_all add: DEFAULTS_def g_half_def drawStream_def trailSegment_def segment_y_def
          segment_alpha_def spacing_of_def drawSegment_def drawGlow_def Let_def)
  have "0 \<le> headBoost (DEFAULTS\<lparr> twinkle := 8 / 100 \<rparr>)"
    and "0 < meltZone (DEFAULTS\<lparr> twinkle := 8 / 100 \<rparr>)"
    and "\<bar>twinkle (DEFAULTS\<lparr> twinkle := 8 / 100 \<rparr>)\<bar> \<le> 2 / 23"
    by (simp_all add: DEFAULTS_def g_half_def)
  with painted_opacity_bounds [OF _ _ _ m] m show ?thesis by simp
qed

text \<open>
  With the default options (\<open>twinkle = 0.18\<close>) the head segment of a particle whose
  phase reaches \<open>pi / 2\<close> is painted with alpha \<open>0.92 * 1.18 = 1.0856\<close>.
\<close>

theorem painted_opacity_counterexample:
  "Capsule (82 / 10) 86 (36 / 10) 20 10 (1357 / 1250)
     \<in> set (snd (snd (drawStream DEFAULTS 800 600 g_half 0
         \<lparr> s_x = 10, s_y = 92, s_vy = 500, s_vx = 0, s_phase = pi / 2 - 23 / 1250,
           s_state = Fall, s_t = 0, s_wait = 0 \<rparr> (16 / 1000))))
   \<and> \<not> (1357 / 1250 \<le> (1::real))"
proof -
  have "Capsule (82 / 10) 86 (36 / 10) 20 10 (1357 / 1250)
     \<in> set (snd (snd (drawStream DEFAULTS 800 600 g_half 0
         \<lparr> s_x = 10, s_y = 92, s_vy = 500, s_vx = 0, s_phase = pi / 2 - 23 / 1250,
           s_state = Fall, s_t = 0, s_wait = 0 \<rparr> (16 / 1000))))"
    by (rule trailSegment_in_paints [where i = 0])
       (simp_all add: DEFAULTS_def g_half_def drawStream_def trailSegment_def segment_y_def
          segment_alpha_def spacing_of_def drawSegment_def drawGlow_def Let_def)
  then show ?thesis by simp
qed

subsection \<open>C2: what construction checks\<close>




subsection \<open>C3: the x coordinate\<close>

text \<open>
  C3, as amended. After an update, \<open>x\<close> of a Falling particle is \<open>W + 50\<close> if the moved
  \<open>x\<close> is below \<open>-50\<close>, \<open>-50\<close> if it is above \<open>W + 50\<close>, and the moved \<open>x\<close> otherwise;
  Flashing and Melting keep \<open>x\<close>; Waiting keeps \<open>x\<close> until the update in which the wait
  runs out, which sets \<open>x\<close> to \<open>rand(0, W)\<close>. With \<open>W \<ge> 1\<close> and a draw in \<open>[0, 1]\<close>, a
  particle that is Falling, or whose \<open>x\<close> is in \<open>[-50, W + 50]\<close>, has \<open>x\<close> in
  \<open>[-50, W + 50]\<close> after the update.
\<close>

theorem x_wraps_or_respawns:
  "s_x (fst (drawStream opt W H g k s dt)) =
     (case s_state s of
        Fall \<Rightarrow> (if s_x s + s_vx s * dt < - 50 then W + 50
                 else if s_x s + s_vx s * dt > W + 50 then - 50
                 else s_x s + s_vx s * dt)
      | Flash \<Rightarrow> s_x s
      | Melt \<Rightarrow> s_x s
      | Wait \<Rightarrow> (if s_wait s - dt \<le> 0 then rand 0 W (g k) else s_x s))
 \<and> (1 \<le> W \<and> 0 \<le> g k \<and> g k \<le> 1
      \<and> (s_state s = Fall \<or> (- 50 \<le> s_x s \<and> s_x s \<le> W + 50)) \<longrightarrow>
        - 50 \<le> s_x (fst (drawStream opt W H g k s dt))
      \<and> s_x (fst (drawStream opt W H g k s dt)) \<le> W + 50)"
proof -
  have eq: "s_x (fst (drawStream opt W H g k s dt)) =
     (case s_state s of
        Fall \<Rightarrow> (if s_x s + s_vx s * dt < - 50 then W + 50
                 else if s_x s + s_vx s * dt > W + 50 then - 50
                 else s_x s + s_vx s * dt)
      | Flash \<Rightarrow> s_x s
      | Melt \<Rightarrow> s_x s
      | Wait \<Rightarrow> (if s_wait s - dt \<le> 0 then rand 0 W (g k) else s_x s))"
    by (cases "s_state s") (simp_all add: drawStream_def Let_def makeStream_def)
  have rng: "- 50 \<le> s_x (fst (drawStream opt W H g k s dt))
      \<and> s_x (fst (drawStream opt W H g k s dt)) \<le> W + 50"
    if W: "1 \<le> W" and u: "0 \<le> g k" "g k \<le> 1"
      and inv: "s_state s = Fall \<or> (- 50 \<le> s_x s \<and> s_x s \<le> W + 50)"
  proof -
    from W have "0 \<le> W" by simp
    from rand_between [OF this u] have r: "0 \<le> rand 0 W (g k)" "rand 0 W (g k) \<le> W" .
    show ?thesis
    proof (cases "s_state s")
      case Fall
      with eq W show ?thesis by simp
    next
      case Flash
      with eq inv show ?thesis by simp
    next
      case Melt
      with eq inv show ?thesis by simp
    next
      case Wait
      with eq inv r show ?thesis by simp
    qed
  qed
  from eq rng show ?thesis by blast
qed

theorem x_wraps_or_respawns_witness:
  "s_x (fst (drawStream DEFAULTS 100 100 g_half 0
         \<lparr> s_x = - 49, s_y = 10, s_vy = 300, s_vx = - 100, s_phase = 0,
           s_state = Fall, s_t = 0, s_wait = 0 \<rparr> (16 / 1000))) = 150
 \<and> s_x (fst (drawStream DEFAULTS 100 100 g_half 0
         \<lparr> s_x = 149, s_y = 10, s_vy = 300, s_vx = 100, s_phase = 0,
           s_state = Fall, s_t = 0, s_wait = 0 \<rparr> (16 / 1000))) = - 50"
  using x_wraps_or_respawns [where s = "\<lparr> s_x = - 49, s_y = 10, s_vy = 300, s_vx = - 100,
           s_phase = 0, s_state = Fall, s_t = 0, s_wait = 0 \<rparr>" and opt = DEFAULTS
           and W = 100 and H = 100 and g = g_half and k = 0 and dt = "16 / 1000"]
        x_wraps_or_respawns [where s = "\<lparr> s_x = 149, s_y = 10, s_vy = 300, s_vx = 100,
           s_phase = 0, s_state = Fall, s_t = 0, s_wait = 0 \<rparr>" and opt = DEFAULTS
           and W = 100 and H = 100 and g = g_half and k = 0 and dt = "16 / 1000"]
  by simp

text \<open>A Waiting particle whose wait runs out moves from \<open>x = 10\<close> to \<open>x = 50\<close>.\<close>

theorem x_wraps_or_respawns_counterexample:
  "s_x (fst (drawStream DEFAULTS 100 100 g_half 0
         \<lparr> s_x = 10, s_y = 99, s_vy = 300, s_vx = 0, s_phase = 0,
           s_state = Wait, s_t = 0, s_wait = 1 / 100 \<rparr> (16 / 1000))) = 50
 \<and> s_x \<lparr> s_x = 10, s_y = 99, s_vy = 300, s_vx = 0, s_phase = 0,
           s_state = Wait, s_t = 0, s_wait = 1 / 100 \<rparr> = 10"
  by (simp add: DEFAULTS_def g_half_def drawStream_def makeStream_def rand_def Let_def)

subsection \<open>C4: Flashing ends on the tick that reaches \<open>flashTime\<close>\<close>

text \<open>
  C4. A Flashing particle whose accumulated time \<open>s.t + dt\<close> reaches \<open>flashTime\<close> in an
  update, equality included, is Melting with \<open>t = 0\<close> when that update returns; while
  the accumulated time is below \<open>flashTime\<close> it stays Flashing and keeps the accumulated
  time.
\<close>

theorem flash_to_melt_same_tick:
  assumes "s_state s = Flash"
  shows "s_state (fst (drawStream opt W H g k s dt))
           = (if flashTime opt \<le> s_t s + dt then Melt else Flash)
       \<and> s_t (fst (drawStream opt W H g k s dt))
           = (if flashTime opt \<le> s_t s + dt then 0 else s_t s + dt)"
  using assms by (simp add: drawStream_Flash Let_def)

theorem flash_to_melt_same_tick_witness:
  "s_state (fst (drawStream DEFAULTS 100 100 g_half 0
      \<lparr> s_x = 10, s_y = 99, s_vy = 300, s_vx = 0, s_phase = 0, s_state = Flash,
        s_t = 7 / 100, s_wait = 0 \<rparr> (7 / 100))) = Melt"
  using flash_to_melt_same_tick [where s = "\<lparr> s_x = 10, s_y = 99, s_vy = 300, s_vx = 0,
        s_phase = 0, s_state = Flash, s_t = 7 / 100, s_wait = 0 \<rparr>" and opt = DEFAULTS
        and dt = "7 / 100" and W = 100 and H = 100 and g = g_half and k = 0]
  by (simp add: DEFAULTS_def g_half_def)

subsection \<open>C5: the melting puddle\<close>

text \<open>
  C5, as amended. For a Melting particle and \<open>meltTime \<noteq> 0\<close> let
  \<open>p = clamp((s.t + dt) / meltTime, 0, 1)\<close>.
  The update paints one circle, of radius \<open>10 + 10 * p\<close> and alpha \<open>0.18 * (1 - p)\<close>.
  If \<open>p \<ge> 1\<close> the particle becomes Waiting, \<open>t\<close> is 0 and \<open>wait\<close> is
  \<open>rand(spawnGapMin, spawnGapMax)\<close> of the next draw, which lies between the two bounds
  when \<open>spawnGapMin \<le> spawnGapMax\<close>; otherwise it stays Melting.
\<close>

theorem melting_puddle:
  assumes "s_state s = Melt" and "meltTime opt \<noteq> 0"
  shows "drawStream opt W H g k s dt =
     (let p = clamp ((s_t s + dt) / meltTime opt) 0 1;
          s1 = s\<lparr> s_phase := s_phase s + (115 / 100) * dt, s_t := s_t s + dt \<rparr>;
          ps = [Arc (s_x s) (H + 4) (10 + 10 * p) ((18 / 100) * (1 - p))]
      in if 1 \<le> p
         then (s1\<lparr> s_state := Wait, s_wait := rand (spawnGapMin opt) (spawnGapMax opt) (g k),
                   s_t := 0 \<rparr>, k + 1, ps)
         else (s1, k, ps))
   \<and> (spawnGapMin opt \<le> spawnGapMax opt \<and> 0 \<le> g k \<and> g k \<le> 1 \<longrightarrow>
        spawnGapMin opt \<le> rand (spawnGapMin opt) (spawnGapMax opt) (g k)
      \<and> rand (spawnGapMin opt) (spawnGapMax opt) (g k) \<le> spawnGapMax opt)"
  using assms(1) rand_between [of "spawnGapMin opt" "spawnGapMax opt" "g k"]
  by (simp add: drawStream_def Let_def algebra_simps)

theorem melting_puddle_witness:
  "s_state (fst (drawStream DEFAULTS 100 100 g_half 0
         \<lparr> s_x = 10, s_y = 99, s_vy = 300, s_vx = 0, s_phase = 0,
           s_state = Melt, s_t = 54 / 100, s_wait = 0 \<rparr> (2 / 100))) = Wait
 \<and> s_wait (fst (drawStream DEFAULTS 100 100 g_half 0
         \<lparr> s_x = 10, s_y = 99, s_vy = 300, s_vx = 0, s_phase = 0,
           s_state = Melt, s_t = 54 / 100, s_wait = 0 \<rparr> (2 / 100))) = 34 / 100
 \<and> spawnGapMin DEFAULTS \<le> 34 / 100 \<and> 34 / 100 \<le> spawnGapMax DEFAULTS"
  using melting_puddle [where s = "\<lparr> s_x = 10, s_y = 99, s_vy = 300, s_vx = 0, s_phase = 0,
           s_state = Melt, s_t = 54 / 100, s_wait = 0 \<rparr>" and opt = DEFAULTS
           and W = 100 and H = 100 and g = g_half and k = 0 and dt = "2 / 100"]
  by (simp add: DEFAULTS_def g_half_def clamp_def rand_def Let_def)

text \<open>At \<open>p = 1/2\<close> the circle is painted with alpha 0.09, and \<open>1 - p\<close> is 0.5.\<close>

theorem melting_puddle_counterexample:
  "snd (snd (drawStream DEFAULTS 100 100 g_half 0
         \<lparr> s_x = 10, s_y = 99, s_vy = 300, s_vx = 0, s_phase = 0,
           s_state = Melt, s_t = 259 / 1000, s_wait = 0 \<rparr> (16 / 1000)))
     = [Arc 10 104 15 (9 / 100)]
 \<and> 1 - clamp ((259 / 1000 + 16 / 1000) / meltTime DEFAULTS) 0 1 = 1 / 2
 \<and> (9 / 100 :: real) \<noteq> 1 / 2"
  by (simp add: DEFAULTS_def g_half_def drawStream_def clamp_def Let_def)

subsection \<open>C6: Waiting and respawn\<close>



subsection \<open>C7: every transition resets \<open>t\<close>\<close>

text \<open>
  C7. Whenever an update changes the lifecycle state of a particle, the particle's
  \<open>t\<close> is 0 when the update returns; the only changes are Falling to Flashing,
  Flashing to Melting, Melting to Waiting and Waiting to Falling.
\<close>

theorem transition_resets_t:
  assumes "s_state (fst (drawStream opt W H g k s dt)) \<noteq> s_state s"
  shows "s_t (fst (drawStream opt W H g k s dt)) = 0
       \<and> (s_state s, s_state (fst (drawStream opt W H g k s dt)))
            \<in> {(Fall, Flash), (Flash, Melt), (Melt, Wait), (Wait, Fall)}"
  using assms
  by (cases "s_state s") (auto simp: drawStream_def Let_def makeStream_def split: if_splits)

theorem transition_resets_t_witness:
  "s_t (fst (drawStream DEFAULTS 100 100 g_half 0
      \<lparr> s_x = 10, s_y = 99, s_vy = 300, s_vx = 0, s_phase = 0, s_state = Melt,
        s_t = 54 / 100, s_wait = 0 \<rparr> (2 / 100))) = 0"
proof -
  have changed: "s_state (fst (drawStream DEFAULTS 100 100 g_half 0
      \<lparr> s_x = 10, s_y = 99, s_vy = 300, s_vx = 0, s_phase = 0, s_state = Melt,
        s_t = 54 / 100, s_wait = 0 \<rparr> (2 / 100)))
      \<noteq> s_state \<lparr> s_x = 10, s_y = 99, s_vy = 300, s_vx = 0, s_phase = 0, s_state = Melt,
        s_t = 54 / 100, s_wait = 0 \<rparr>"
    by (simp add: drawStream_def DEFAULTS_def clamp_def Let_def)
  from transition_resets_t [OF changed] show ?thesis by simp
qed

subsection \<open>C8: position and culling of a trail segment\<close>

text \<open>
  C8, as amended (for \<open>spacing \<noteq> 0\<close> and \<open>meltZone \<noteq> 0\<close>). The candidate \<open>y\<close> of
  segment \<open>i\<close> is \<open>floor(y / spacing) * spacing - i * spacing\<close>. Iteration \<open>i\<close> of the trail loop paints
  nothing exactly when that \<open>y\<close> is below \<open>-40\<close>, or above \<open>H + 40\<close>, or the opacity
  computed for the segment is at most 0. What a Falling update paints is what the
  iterations \<open>0, ..., trailLeds - 1\<close> paint, in this order.
\<close>

theorem trail_culling:
  assumes "spacing_of opt \<noteq> 0" and "meltZone opt \<noteq> 0"
  shows "segment_y opt py i
     = real_of_int \<lfloor>py / spacing_of opt\<rfloor> * spacing_of opt - real i * spacing_of opt
 \<and> (trailSegment opt H px py tw i = [])
     = (segment_y opt py i < - 40 \<or> segment_y opt py i > H + 40
        \<or> segment_alpha opt H tw (segment_y opt py i) i \<le> 0)
 \<and> (s_state s = Fall \<longrightarrow>
      snd (snd (drawStream opt W H g k s dt)) =
        concat (map (trailSegment opt H (s_x (fst (drawStream opt W H g k s dt)))
                    (s_y s + s_vy s * dt)
                    (1 + sin (s_phase s + (115 / 100) * dt) * twinkle opt))
                 [0 ..< trailLeds opt]))"
proof -
  have a: "segment_y opt py i
     = real_of_int \<lfloor>py / spacing_of opt\<rfloor> * spacing_of opt - real i * spacing_of opt"
    by (simp add: segment_y_def Let_def algebra_simps)
  have b: "(trailSegment opt H px py tw i = [])
     = (segment_y opt py i < - 40 \<or> segment_y opt py i > H + 40
        \<or> segment_alpha opt H tw (segment_y opt py i) i \<le> 0)"
    by (auto simp: trailSegment_def drawSegment_def Let_def)
  from a b drawStream_Fall_paints show ?thesis by blast
qed

theorem trail_culling_witness:
  "snd (snd (drawStream (DEFAULTS\<lparr> trailLeds := 1 \<rparr>) 800 600 g_half 0
         \<lparr> s_x = 10, s_y = 100, s_vy = 500, s_vx = 0, s_phase = 0,
           s_state = Fall, s_t = 0, s_wait = 0 \<rparr> 0))
     = [GlowDisc 10 96 26 (207 / 1250), Capsule (82 / 10) 86 (36 / 10) 20 10 (23 / 25)]"
  using trail_culling [where s = "\<lparr> s_x = 10, s_y = 100, s_vy = 500, s_vx = 0, s_phase = 0,
           s_state = Fall, s_t = 0, s_wait = 0 \<rparr>" and opt = "DEFAULTS\<lparr> trailLeds := 1 \<rparr>"
           and W = 800 and H = 600 and g = g_half and k = 0 and dt = 0]
  by (simp add: DEFAULTS_def g_half_def drawStream_def trailSegment_def segment_y_def segment_alpha_def
        spacing_of_def drawSegment_def drawGlow_def Let_def)

text \<open>
  With \<open>H = 96\<close> a head segment at \<open>y = 96\<close> is inside \<open>[-40, H + 40]\<close> and is not
  painted: the melt zone has brought its opacity to 0.
\<close>

theorem trail_culling_counterexample:
  "segment_y DEFAULTS (90 + 500 * (16 / 1000)) 0 = 96
 \<and> \<not> ((96::real) < - 40 \<or> (96::real) > 96 + 40)
 \<and> trailSegment DEFAULTS 96 10 (90 + 500 * (16 / 1000)) (1 + sin (0 + (115 / 100) * (16 / 1000)) * twinkle DEFAULTS) 0 = []
 \<and> snd (snd (drawStream (DEFAULTS\<lparr> trailLeds := 1 \<rparr>) 100 96 g_half 0
         \<lparr> s_x = 10, s_y = 90, s_vy = 500, s_vx = 0, s_phase = 0,
           s_state = Fall, s_t = 0, s_wait = 0 \<rparr> (16 / 1000))) = []"
  by (simp add: DEFAULTS_def g_half_def drawStream_def trail_def trailSegment_def segment_y_def segment_alpha_def
        spacing_of_def drawSegment_def drawGlow_def Let_def)

subsection \<open>C9: resume\<close>

text \<open>
  C9. \<open>resume()\<close> on a running instance returns the instance unchanged, so a second
  \<open>resume()\<close> does nothing. On a paused instance it sets \<open>running\<close>, sets \<open>last\<close> to
  \<open>performance.now()\<close>, schedules one frame callback and keeps the particles; the next
  frame, at time \<open>now\<close>, updates every particle with \<open>dt = min(40, now - last) / 1000\<close>
  for that new \<open>last\<close>.
\<close>

theorem resume_noop_when_running:
  "(i_running i \<longrightarrow> resume e i = i)
 \<and> resume e2 (resume e i) = resume e i
 \<and> (\<not> i_running i \<longrightarrow>
      i_running (resume e i)
    \<and> i_last (resume e i) = perf_now e
    \<and> i_pending (resume e i) = i_pending i @ [i_next_handle i]
    \<and> i_streams (resume e i) = i_streams i
    \<and> frame_dt now (i_last (resume e i)) = min 40 (now - perf_now e) / 1000
    \<and> (\<forall>e' g i' ps. loop e' g now (resume e i) = (i', ps) \<longrightarrow>
         (\<forall>j < length (i_streams i). \<exists>kj.
            i_streams i' ! j = fst (drawStream (i_opt i) (i_W i') (i_H i') g kj (i_streams i ! j)
                                      (min 40 (now - perf_now e) / 1000)))))"
proof -
  have a: "i_running i \<longrightarrow> resume e i = i"
    by (simp add: resume_def)
  have b: "resume e2 (resume e i) = resume e i"
    by (simp add: resume_def requestAnimationFrame_def)
  have c: "i_running (resume e i)
    \<and> i_last (resume e i) = perf_now e
    \<and> i_pending (resume e i) = i_pending i @ [i_next_handle i]
    \<and> i_streams (resume e i) = i_streams i
    \<and> i_opt (resume e i) = i_opt i
    \<and> frame_dt now (i_last (resume e i)) = min 40 (now - perf_now e) / 1000"
    if "\<not> i_running i"
    using that by (simp add: resume_def requestAnimationFrame_def frame_dt_def)
  have d: "\<forall>j < length (i_streams i). \<exists>kj.
            i_streams i' ! j = fst (drawStream (i_opt i) (i_W i') (i_H i') g kj (i_streams i ! j)
                                      (min 40 (now - perf_now e) / 1000))"
    if nr: "\<not> i_running i" and l: "loop e' g now (resume e i) = (i', ps)" for e' g i' ps
    using loop_updates(2) [OF _ l] c [OF nr] by (simp add: frame_dt_def)
  from a b c d show ?thesis by blast
qed

theorem resume_noop_when_running_witness:
  "i_last (resume example_env (example_instance False)) = 9000
 \<and> i_pending (resume example_env (example_instance False)) = [2]
 \<and> resume example_env (example_instance True) = example_instance True
 \<and> s_t (i_streams (fst (loop example_env g_half 9016
            (resume example_env (example_instance False)))) ! 0) = 16 / 1000"
proof -
  note a = resume_noop_when_running [of "example_instance False" example_env example_env 9016]
  note b = resume_noop_when_running [of "example_instance True" example_env example_env 9016]
  have nr: "\<not> i_running (example_instance False)" by (simp add: example_instance_def)
  from a nr have L: "\<forall>e' g i' ps.
       loop e' g 9016 (resume example_env (example_instance False)) = (i', ps) \<longrightarrow>
         (\<forall>j < length (i_streams (example_instance False)). \<exists>kj.
            i_streams i' ! j = fst (drawStream (i_opt (example_instance False)) (i_W i') (i_H i')
                                      g kj (i_streams (example_instance False) ! j)
                                      (min 40 (9016 - perf_now example_env) / 1000)))"
    by blast
  have "\<exists>kj. i_streams (fst (loop example_env g_half 9016
            (resume example_env (example_instance False)))) ! 0
        = fst (drawStream (i_opt (example_instance False))
                 (i_W (fst (loop example_env g_half 9016 (resume example_env (example_instance False)))))
                 (i_H (fst (loop example_env g_half 9016 (resume example_env (example_instance False)))))
                 g_half kj (i_streams (example_instance False) ! 0)
                 (min 40 (9016 - perf_now example_env) / 1000))"
    using L [rule_format, OF prod.collapse [symmetric], where j = 0 and e' = example_env
             and g = g_half]
    by (simp add: example_instance_def)
  then have "s_t (i_streams (fst (loop example_env g_half 9016
            (resume example_env (example_instance False)))) ! 0) = 16 / 1000"
    by (auto simp: example_instance_def example_env_def drawStream_Flash DEFAULTS_def Let_def)
  with a b show ?thesis
    by (simp add: example_instance_def example_env_def)
qed

subsection \<open>C10: the frame delta\<close>

text \<open>
  C10. A frame of a running instance at time \<open>now\<close> updates every particle with the same
  \<open>dt = min(40, now - last) / 1000\<close>, which is at most 0.04.
\<close>

theorem loop_dt_capped:
  assumes "i_running i" and "loop e g now i = (i', ps)"
  shows "frame_dt now (i_last i) = min 40 (now - i_last i) / 1000
       \<and> frame_dt now (i_last i) \<le> 4 / 100
       \<and> length (i_streams i') = length (i_streams i)
       \<and> (\<forall>j < length (i_streams i). \<exists>kj.
           i_streams i' ! j = fst (drawStream (i_opt i) (i_W i') (i_H i') g kj (i_streams i ! j)
                                     (frame_dt now (i_last i))))"
  using loop_updates(1,2) [OF assms] by (simp add: frame_dt_def)

theorem loop_dt_capped_witness:
  "frame_dt 5000 (i_last (example_instance True)) = 4 / 100
 \<and> length (i_streams (fst (loop example_env g_half 5000 (example_instance True)))) = 1
 \<and> s_t (i_streams (fst (loop example_env g_half 5000 (example_instance True))) ! 0) = 4 / 100"
proof -
  have r: "i_running (example_instance True)" by (simp add: example_instance_def)
  from loop_dt_capped [OF r prod.collapse [symmetric], where e = example_env and g = g_half
         and now = 5000]
  show ?thesis
    by (auto simp: example_instance_def drawStream_Flash DEFAULTS_def Let_def)
qed

end
